theory Spec2Isabelle
  imports Complex_Main
begin

section \<open>Outcomes and numeric values\<close>

text \<open>
  The Python exceptions the modelled functions can raise.  \<open>Unmodelled\<close> is not an
  exception: it marks the runs that this development does not follow.  These are the runs in
  which the source goes on computing with \<open>inf\<close> or \<open>nan\<close> operands inside a routine (ARPACK,
  SuperLU, complex array arithmetic) or divides by a zero sum, the runs whose 2D array
  arguments are not all of the shape of \<open>X\<close>, and the saving of an array called
  \<open>allow_pickle\<close>, a name that newer versions of numpy read as an option.  No theorem below
  draws a conclusion from an \<open>Unmodelled\<close> outcome.
\<close>

datatype failure =
    IndexError
  | ValueError
  | TypeError
  | ZeroDivisionError
  | NotImplementedError
  | RuntimeError
  | FileNotFoundError
  | Unmodelled

text \<open>
  A \<open>float64\<close> as the solvers see it: a finite value, one of the two infinities, or
  \<open>nan\<close>.  Finite arithmetic is exact (rounding, overflow and the sign of zero are not
  modelled); the special values follow IEEE 754, which is what numpy applies to arrays
  and to \<open>np.float64\<close> scalars (a warning, never an exception).
\<close>

datatype fval = Fin real | PInf | NInf | NaN

instantiation fval :: "{zero,one,plus,minus,uminus,times,inverse}"
begin

definition zero_fval :: fval where
  "zero_fval = Fin 0"

definition one_fval :: fval where
  "one_fval = Fin 1"

fun plus_fval :: "fval \<Rightarrow> fval \<Rightarrow> fval" where
  "plus_fval (Fin a) (Fin b) = Fin (a + b)"
| "plus_fval NaN _ = NaN"
| "plus_fval _ NaN = NaN"
| "plus_fval PInf NInf = NaN"
| "plus_fval NInf PInf = NaN"
| "plus_fval PInf _ = PInf"
| "plus_fval _ PInf = PInf"
| "plus_fval NInf _ = NInf"
| "plus_fval _ NInf = NInf"

fun uminus_fval :: "fval \<Rightarrow> fval" where
  "uminus_fval (Fin a) = Fin (- a)"
| "uminus_fval PInf = NInf"
| "uminus_fval NInf = PInf"
| "uminus_fval NaN = NaN"

definition minus_fval :: "fval \<Rightarrow> fval \<Rightarrow> fval" where
  "minus_fval a b = a + (- b)"

fun times_fval :: "fval \<Rightarrow> fval \<Rightarrow> fval" where
  "times_fval (Fin a) (Fin b) = Fin (a * b)"
| "times_fval NaN _ = NaN"
| "times_fval _ NaN = NaN"
| "times_fval (Fin a) PInf = (if a = 0 then NaN else if 0 < a then PInf else NInf)"
| "times_fval (Fin a) NInf = (if a = 0 then NaN else if 0 < a then NInf else PInf)"
| "times_fval PInf (Fin b) = (if b = 0 then NaN else if 0 < b then PInf else NInf)"
| "times_fval NInf (Fin b) = (if b = 0 then NaN else if 0 < b then NInf else PInf)"
| "times_fval PInf PInf = PInf"
| "times_fval PInf NInf = NInf"
| "times_fval NInf PInf = NInf"
| "times_fval NInf NInf = PInf"

fun divide_fval :: "fval \<Rightarrow> fval \<Rightarrow> fval" where
  "divide_fval (Fin a) (Fin b) =
     (if b \<noteq> 0 then Fin (a / b)
      else if a = 0 then NaN else if 0 < a then PInf else NInf)"
| "divide_fval NaN _ = NaN"
| "divide_fval _ NaN = NaN"
| "divide_fval (Fin a) PInf = Fin 0"
| "divide_fval (Fin a) NInf = Fin 0"
| "divide_fval PInf (Fin b) = (if 0 \<le> b then PInf else NInf)"
| "divide_fval NInf (Fin b) = (if 0 \<le> b then NInf else PInf)"
| "divide_fval PInf PInf = NaN"
| "divide_fval PInf NInf = NaN"
| "divide_fval NInf PInf = NaN"
| "divide_fval NInf NInf = NaN"

definition inverse_fval :: "fval \<Rightarrow> fval" where
  "inverse_fval a = divide (Fin 1) a"

instance ..

end

text \<open>\<open>np.isfinite\<close>, \<open>np.sqrt\<close>, and the comparisons \<open><\<close> and \<open>>\<close> of floats.\<close>

fun isfinite :: "fval \<Rightarrow> bool" where
  "isfinite (Fin a) = True"
| "isfinite _ = False"

fun the_fin :: "fval \<Rightarrow> real" where
  "the_fin (Fin a) = a"
| "the_fin _ = 0"

fun fsqrt :: "fval \<Rightarrow> fval" where
  "fsqrt (Fin a) = (if a < 0 then NaN else Fin (sqrt a))"
| "fsqrt PInf = PInf"
| "fsqrt NInf = NaN"
| "fsqrt NaN = NaN"


section \<open>Grid quadrature\<close>

text \<open>
  \<open>np.trapz(y, x)\<close> on two arrays of the same length: the sum over the intervals of
  \<open>(x[i+1] - x[i]) * (y[i+1] + y[i]) / 2\<close>.  Every call site of the solvers passes a
  \<open>y\<close> that has the length of \<open>x\<close>.
\<close>

fun trapz :: "'a::{zero,one,plus,minus,times,inverse} list \<Rightarrow> 'a list \<Rightarrow> 'a" where
  "trapz (y0 # y1 # ys) (x0 # x1 # xs) =
     (x1 - x0) * (y1 + y0) / (1 + 1) + trapz (y1 # ys) (x1 # xs)"
| "trapz _ _ = 0"

section \<open>utils/grid.py\<close>

text \<open>
  \<open>np.linspace(start, stop, num)\<close> for \<open>num \<ge> 2\<close>: \<open>start + i * step\<close> with
  \<open>step = (stop - start) / (num - 1)\<close>.
\<close>

definition linspace :: "real \<Rightarrow> real \<Rightarrow> nat \<Rightarrow> real list" where
  "linspace start stop num =
     map (\<lambda>i. start + real i * ((stop - start) / real (num - 1))) [0..<num]"


text \<open>\<open>np.meshgrid(x, y, indexing='ij')\<close>: \<open>X[i][j] = x[i]\<close> and \<open>Y[i][j] = y[j]\<close>.\<close>

definition meshgrid_ij :: "'a list \<Rightarrow> 'a list \<Rightarrow> 'a list list \<times> 'a list list" where
  "meshgrid_ij x y = (map (\<lambda>xi. map (\<lambda>_. xi) y) x, map (\<lambda>_. y) x)"

definition create_2d_grid ::
  "real \<Rightarrow> real \<Rightarrow> int \<Rightarrow> real \<Rightarrow> real \<Rightarrow> int \<Rightarrow>
   failure + (real list list \<times> real list list \<times> real \<times> real)" where
  "create_2d_grid xmin xmax num_x ymin ymax num_y =
     (if num_x < 2 \<or> num_y < 2 then Inl ValueError
      else let x = linspace xmin xmax (nat num_x);
               y = linspace ymin ymax (nat num_y);
               dx = x ! 1 - x ! 0;
               dy = y ! 1 - y ! 0;
               (X, Y) = meshgrid_ij x y
           in Inr (X, Y, dx, dy))"

section \<open>potentials/basic.py\<close>


section \<open>Sparse matrices\<close>

text \<open>
  A \<open>scipy.sparse\<close> matrix: its shape and its stored entries.  A position without a
  stored entry reads as zero, and scalar operations touch the stored entries only.
\<close>

record 'a spmat =
  nrows :: nat
  ncols :: nat
  entry :: "nat \<Rightarrow> nat \<Rightarrow> 'a option"

text \<open>\<open>diags([lower, main, upper], [-1, 0, 1])\<close> and \<open>diags(d, 0)\<close>.\<close>

definition diags_tridiag :: "'a list \<Rightarrow> 'a list \<Rightarrow> 'a list \<Rightarrow> 'a spmat" where
  "diags_tridiag lower main upper =
     \<lparr>nrows = length main, ncols = length main,
      entry = (\<lambda>i j. if i < length main \<and> j < length main
                       then (if i = j then Some (main ! i)
                             else if i = j + 1 then Some (lower ! j)
                             else if j = i + 1 then Some (upper ! i)
                             else None)
                       else None)\<rparr>"

definition diags_main :: "'a list \<Rightarrow> 'a spmat" where
  "diags_main d =
     \<lparr>nrows = length d, ncols = length d,
      entry = (\<lambda>i j. if i < length d \<and> i = j then Some (d ! i) else None)\<rparr>"

definition sp_identity :: "nat \<Rightarrow> 'a::one spmat" where
  "sp_identity n =
     \<lparr>nrows = n, ncols = n, entry = (\<lambda>i j. if i < n \<and> i = j then Some 1 else None)\<rparr>"

text \<open>\<open>M / c\<close>, \<open>c * M\<close>, \<open>A + B\<close> and \<open>A - B\<close> (operands of one shape).\<close>

definition sp_div :: "'a::inverse spmat \<Rightarrow> 'a \<Rightarrow> 'a spmat" where
  "sp_div M c = M\<lparr>entry := (\<lambda>i j. map_option (\<lambda>v. v / c) (entry M i j))\<rparr>"

definition sp_scale :: "'a::times \<Rightarrow> 'a spmat \<Rightarrow> 'a spmat" where
  "sp_scale c M = M\<lparr>entry := (\<lambda>i j. map_option (\<lambda>v. c * v) (entry M i j))\<rparr>"

definition sp_add :: "'a::plus spmat \<Rightarrow> 'a spmat \<Rightarrow> 'a spmat" where
  "sp_add A B =
     A\<lparr>entry := (\<lambda>i j. case (entry A i j, entry B i j) of
                          (Some a, Some b) \<Rightarrow> Some (a + b)
                        | (Some a, None) \<Rightarrow> Some a
                        | (None, Some b) \<Rightarrow> Some b
                        | (None, None) \<Rightarrow> None)\<rparr>"

definition sp_sub :: "'a::{minus,uminus} spmat \<Rightarrow> 'a spmat \<Rightarrow> 'a spmat" where
  "sp_sub A B =
     A\<lparr>entry := (\<lambda>i j. case (entry A i j, entry B i j) of
                          (Some a, Some b) \<Rightarrow> Some (a - b)
                        | (Some a, None) \<Rightarrow> Some a
                        | (None, Some b) \<Rightarrow> Some (- b)
                        | (None, None) \<Rightarrow> None)\<rparr>"

text \<open>
  \<open>kron(A, B)\<close>: the block matrix whose block \<open>(a, a')\<close> is \<open>A[a, a'] * B\<close>, so that row
  \<open>a * nrows B + b\<close> and column \<open>a' * ncols B + b'\<close> hold \<open>A[a, a'] * B[b, b']\<close>.
\<close>

definition kron :: "'a::times spmat \<Rightarrow> 'a spmat \<Rightarrow> 'a spmat" where
  "kron A B =
     \<lparr>nrows = nrows A * nrows B, ncols = ncols A * ncols B,
      entry = (\<lambda>i j. if i < nrows A * nrows B \<and> j < ncols A * ncols B
                       then (case (entry A (i div nrows B) (j div ncols B),
                                   entry B (i mod nrows B) (j mod ncols B)) of
                               (Some a, Some b) \<Rightarrow> Some (a * b)
                             | _ \<Rightarrow> None)
                       else None)\<rparr>"

text \<open>Change of the entry type, \<open>M.toarray()\<close> and \<open>M.dot(v)\<close>.\<close>

definition sp_map :: "('a \<Rightarrow> 'b) \<Rightarrow> 'a spmat \<Rightarrow> 'b spmat" where
  "sp_map f M =
     \<lparr>nrows = nrows M, ncols = ncols M, entry = (\<lambda>i j. map_option f (entry M i j))\<rparr>"

definition sp_val :: "'a::zero spmat \<Rightarrow> nat \<Rightarrow> nat \<Rightarrow> 'a" where
  "sp_val M i j = (case entry M i j of Some v \<Rightarrow> v | None \<Rightarrow> 0)"

definition toarray :: "'a::zero spmat \<Rightarrow> 'a list list" where
  "toarray M = map (\<lambda>i. map (\<lambda>j. sp_val M i j) [0..<ncols M]) [0..<nrows M]"

definition sp_dot :: "'a::semiring_0 spmat \<Rightarrow> 'a list \<Rightarrow> 'a list" where
  "sp_dot M v = map (\<lambda>i. \<Sum>j\<leftarrow>[0..<ncols M]. sp_val M i j * v ! j) [0..<nrows M]"

section \<open>Arrays\<close>

text \<open>
  A 2D array is the list of its rows.  \<open>a.ravel()\<close> and \<open>a.reshape((Nx, Ny))\<close> use the
  row-major order of numpy: element \<open>[i, j]\<close> of an array with \<open>Ny\<close> columns is element
  \<open>i * Ny + j\<close> of the flat array.
\<close>

definition ravel :: "'a list list \<Rightarrow> 'a list" where
  "ravel a = concat a"

fun reshape :: "nat \<Rightarrow> nat \<Rightarrow> 'a list \<Rightarrow> 'a list list" where
  "reshape 0 Ny v = []"
| "reshape (Suc Nx) Ny v = take Ny v # reshape Nx Ny (drop Ny v)"

definition ravel_index :: "nat \<Rightarrow> nat \<Rightarrow> nat \<Rightarrow> nat" where
  "ravel_index Ny i j = i * Ny + j"

definition is_shape :: "nat \<Rightarrow> nat \<Rightarrow> 'a list list \<Rightarrow> bool" where
  "is_shape Nx Ny a = (length a = Nx \<and> list_all (\<lambda>row. length row = Ny) a)"

definition column :: "nat \<Rightarrow> 'a list list \<Rightarrow> 'a list" where
  "column n a = map (\<lambda>row. row ! n) a"


definition num_columns :: "'a list list \<Rightarrow> nat" where
  "num_columns a = (case a of [] \<Rightarrow> 0 | row # _ \<Rightarrow> length row)"


definition all_finite :: "fval list list \<Rightarrow> bool" where
  "all_finite a = list_all (list_all isfinite) a"

definition fabs :: "fval \<Rightarrow> fval" where
  "fabs a = (case a of Fin r \<Rightarrow> Fin \<bar>r\<bar> | PInf \<Rightarrow> PInf | NInf \<Rightarrow> PInf | NaN \<Rightarrow> NaN)"

section \<open>The Hamiltonian\<close>

text \<open>
  The assembly that each solver performs before it solves.  \<open>dx\<close> is an \<open>np.float64\<close>, so
  \<open>/ dx**2\<close> never raises; \<open>mass\<close> and \<open>hbar\<close> are Python floats, for which a zero divisor
  raises \<open>ZeroDivisionError\<close>.
\<close>

definition grid_spacing_1d :: "'a::minus list \<Rightarrow> failure + 'a" where
  "grid_spacing_1d x = (if length x < 2 then Inl IndexError else Inr (x ! 1 - x ! 0))"

definition laplacian_1d :: "nat \<Rightarrow> 'a::{one,plus,uminus,times,inverse} \<Rightarrow> 'a spmat" where
  "laplacian_1d N dx =
     (let main_diag = replicate N (- (1 + 1));
          off_diag = replicate (N - 1) 1
      in sp_div (diags_tridiag off_diag main_diag off_diag) (dx * dx))"

definition hamiltonian_1d ::
  "nat \<Rightarrow> 'a::{zero,one,plus,uminus,times,inverse} \<Rightarrow> 'a list \<Rightarrow> 'a \<Rightarrow> 'a \<Rightarrow> failure + 'a spmat"
  where
  "hamiltonian_1d N dx V mass hbar =
     (let laplacian = laplacian_1d N dx
      in if (1 + 1) * mass = 0 then Inl ZeroDivisionError
         else let T = sp_scale (- (hbar * hbar) / ((1 + 1) * mass)) laplacian;
                  V_op = diags_main V
              in if length V \<noteq> N then Inl ValueError
                 else Inr (sp_add T V_op))"

text \<open>
  In 2D, \<open>Nx, Ny = X.shape\<close>, \<open>dx = X[1,0] - X[0,0]\<close> and \<open>dy = Y[0,1] - Y[0,0]\<close>.
\<close>

definition grid_spacing_2d ::
  "'a::minus list list \<Rightarrow> 'a list list \<Rightarrow> failure + (nat \<times> nat \<times> 'a \<times> 'a)" where
  "grid_spacing_2d X Y =
     (let Nx = length X; Ny = num_columns X
      in if Nx < 2 \<or> Ny < 1 then Inl IndexError
         else if length Y < 1 \<or> num_columns Y < 2 then Inl IndexError
         else Inr (Nx, Ny, X ! 1 ! 0 - X ! 0 ! 0, Y ! 0 ! 1 - Y ! 0 ! 0))"

definition laplacian_2d ::
  "nat \<Rightarrow> nat \<Rightarrow> 'a::{one,plus,uminus,times,inverse} \<Rightarrow> 'a \<Rightarrow> 'a spmat" where
  "laplacian_2d Nx Ny dx dy =
     (let Lx = laplacian_1d Nx dx;
          Ly = laplacian_1d Ny dy
      in sp_add (kron (sp_identity Ny) Lx) (kron Ly (sp_identity Nx)))"

definition hamiltonian_2d ::
  "nat \<Rightarrow> nat \<Rightarrow> 'a::{zero,one,plus,uminus,times,inverse} \<Rightarrow> 'a \<Rightarrow> 'a list list \<Rightarrow> 'a \<Rightarrow> 'a \<Rightarrow>
   failure + 'a spmat" where
  "hamiltonian_2d Nx Ny dx dy V mass hbar =
     (let Lap = laplacian_2d Nx Ny dx dy
      in if (1 + 1) * mass = 0 then Inl ZeroDivisionError
         else let T = sp_scale (- (hbar * hbar) / ((1 + 1) * mass)) Lap;
                  V_flat = ravel V;
                  V_op = diags_main V_flat
              in if length V_flat \<noteq> Nx * Ny then Inl ValueError
                 else Inr (sp_add T V_op))"

text \<open>
  The operator the specification describes for a grid flattened in row-major order: the
  five-point stencil, which couples grid point \<open>(i, j)\<close> to \<open>(i \<plusminus> 1, j)\<close> with weight
  \<open>1 / dx\<^sup>2\<close> and to \<open>(i, j \<plusminus> 1)\<close> with weight \<open>1 / dy\<^sup>2\<close>, and to no other point.
\<close>

definition five_point_stencil :: "fval \<Rightarrow> fval \<Rightarrow> nat \<times> nat \<Rightarrow> nat \<times> nat \<Rightarrow> fval" where
  "five_point_stencil dx dy p q =
     (if p = q then - (1 + 1) / (dx * dx) + - (1 + 1) / (dy * dy)
      else if snd p = snd q \<and> (fst p = fst q + 1 \<or> fst q = fst p + 1) then 1 / (dx * dx)
      else if fst p = fst q \<and> (snd p = snd q + 1 \<or> snd q = snd p + 1) then 1 / (dy * dy)
      else 0)"

section \<open>solvers/schrodinger_1d.py and solvers/schrodinger_2d.py\<close>

subsection \<open>Library routines taken as parameters\<close>

text \<open>
  \<open>scipy.linalg.eigh\<close> is a parameter \<open>eigh\<close> of the stationary solvers: it maps a dense
  real matrix to its eigenvalues and to the matrix whose columns are the eigenvectors.
  What scipy documents of it is \<open>eigh_contract\<close>: all \<open>n\<close> eigenvalues in ascending order,
  orthonormal eigenvectors, column \<open>k\<close> belonging to eigenvalue \<open>k\<close>.  With the default
  \<open>check_finite=True\<close> it raises \<open>ValueError\<close> on a matrix with an infinite or \<open>nan\<close>
  entry before it computes anything; the solvers below make this check themselves.
\<close>

type_synonym eigensolver = "real list list \<Rightarrow> real list \<times> real list list"

definition mat_vec :: "real list list \<Rightarrow> real list \<Rightarrow> real list" where
  "mat_vec A v = map (\<lambda>row. \<Sum>(a, b)\<leftarrow>zip row v. a * b) A"

definition dot_product :: "real list \<Rightarrow> real list \<Rightarrow> real" where
  "dot_product u v = (\<Sum>(a, b)\<leftarrow>zip u v. a * b)"

definition eigh_contract :: "eigensolver \<Rightarrow> real list list \<Rightarrow> bool" where
  "eigh_contract eigh A =
     (case eigh A of (w, v) \<Rightarrow>
        length w = length A \<and> sorted w \<and> is_shape (length A) (length A) v
        \<and> list_all (\<lambda>k. mat_vec A (column k v) = map (\<lambda>c. w ! k * c) (column k v)
                         \<and> list_all (\<lambda>l. dot_product (column k v) (column l v)
                                            = (if k = l then 1 else 0)) [0..<length A])
             [0..<length A])"

text \<open>
  \<open>scipy.sparse.linalg.eigsh(A, k, which)\<close> for a sparse \<open>A\<close>: \<open>k\<close> must be positive
  (\<open>ValueError\<close>) and smaller than the dimension (\<open>TypeError\<close>); it returns \<open>k\<close> eigenpairs,
  chosen by \<open>which\<close>, in ascending order of the eigenvalue.  The converged result is
  described through the full decomposition: \<open>SM\<close> keeps the eigenvalues of smallest
  magnitude, \<open>LM\<close> of largest magnitude, \<open>SA\<close> the algebraically smallest, \<open>LA\<close> the
  algebraically largest, \<open>BE\<close> half from each end.
\<close>

datatype which = LM | SM | LA | SA | BE

definition select_eigenpairs ::
  "which \<Rightarrow> nat \<Rightarrow> (real \<times> real list) list \<Rightarrow> (real \<times> real list) list" where
  "select_eigenpairs wh k ps =
     (case wh of
        SM \<Rightarrow> take k (sort_key (\<lambda>p. \<bar>fst p\<bar>) ps)
      | LM \<Rightarrow> take k (rev (sort_key (\<lambda>p. \<bar>fst p\<bar>) ps))
      | SA \<Rightarrow> take k (sort_key fst ps)
      | LA \<Rightarrow> take k (rev (sort_key fst ps))
      | BE \<Rightarrow> take (k div 2) (sort_key fst ps) @ take (k - k div 2) (rev (sort_key fst ps)))"

definition eigsh ::
  "eigensolver \<Rightarrow> fval spmat \<Rightarrow> int \<Rightarrow> which \<Rightarrow> failure + (real list \<times> real list list)" where
  "eigsh eigh A k wh =
     (if k \<le> 0 then Inl ValueError
      else if int (nrows A) \<le> k then Inl TypeError
      else if \<not> all_finite (toarray A) then Inl Unmodelled
      else let (w, v) = eigh (map (map the_fin) (toarray A));
               pairs = zip w (map (\<lambda>n. column n v) [0..<nrows A]);
               chosen = sort_key fst (select_eigenpairs wh (nat k) pairs)
           in Inr (map fst chosen,
                   map (\<lambda>i. map (\<lambda>p. snd p ! i) chosen) [0..<nrows A]))"

text \<open>
  \<open>scipy.sparse.linalg.splu\<close> is a parameter \<open>splu\<close> of the propagators: \<open>None\<close> when the
  factorisation raises \<open>RuntimeError\<close> (a singular matrix), otherwise the function
  \<open>lu.solve\<close>.  What scipy documents of it is \<open>splu_contract\<close>: \<open>lu.solve(b)\<close> solves
  \<open>A y = b\<close>.
\<close>

type_synonym linear_solver = "complex spmat \<Rightarrow> (complex list \<Rightarrow> complex list) option"


subsection \<open>Stationary states\<close>




text \<open>
  The nested quadrature \<open>np.trapz(np.trapz(a, Y[0,:]), X[:,0])\<close> of a 2D array.
\<close>

definition trapz_2d ::
  "'a::{zero,one,plus,minus,times,inverse} list list \<Rightarrow> 'a list list \<Rightarrow> 'a list list \<Rightarrow> 'a"
  where
  "trapz_2d a X Y = trapz (map (\<lambda>row. trapz row (Y ! 0)) a) (column 0 X)"

definition solve_time_independent_2d ::
  "eigensolver \<Rightarrow> fval list list \<Rightarrow> fval list list \<Rightarrow> fval list list \<Rightarrow> fval \<Rightarrow> fval \<Rightarrow> int \<Rightarrow>
   failure + (real list \<times> fval list list list)" where
  "solve_time_independent_2d eigh X Y V mass hbar num_eigen =
     (case grid_spacing_2d X Y of
        Inl e \<Rightarrow> Inl e
      | Inr (Nx, Ny, dx, dy) \<Rightarrow>
          if \<not> (is_shape Nx Ny X \<and> is_shape Nx Ny Y) then Inl Unmodelled
          else (case hamiltonian_2d Nx Ny dx dy V mass hbar of
                  Inl e \<Rightarrow> Inl e
                | Inr H \<Rightarrow>
                    (case eigsh eigh H num_eigen SM of
                       Inl e \<Rightarrow> Inl e
                     | Inr (energies, wavefuncs) \<Rightarrow>
                         Inr (energies,
                              map (\<lambda>n. let wf = reshape Nx Ny (map Fin (column n wavefuncs));
                                           norm = fsqrt (trapz_2d
                                                    (map (map (\<lambda>v. fabs v * fabs v)) wf) X Y)
                                       in map (map (\<lambda>v. v / norm)) wf)
                                  [0..<nat num_eigen]))))"

subsection \<open>Propagation\<close>

text \<open>
  \<open>A = I + 1j * dt * H / (2 * hbar)\<close> and \<open>B = I - 1j * dt * H / (2 * hbar)\<close>.
\<close>

definition crank_nicolson_matrices ::
  "real spmat \<Rightarrow> real \<Rightarrow> real \<Rightarrow> complex spmat \<times> complex spmat" where
  "crank_nicolson_matrices H dt hbar =
     (let I = diags_main (replicate (nrows H) 1);
          M = sp_div (sp_scale (\<i> * complex_of_real dt) (sp_map complex_of_real H))
                     (complex_of_real (2 * hbar))
      in (sp_add I M, sp_sub I M))"

text \<open>
  A snapshot is \<open>None\<close> once it holds \<open>nan\<close> or \<open>inf\<close> values, which is what the division
  by a norm that is zero or \<open>nan\<close> produces, and stays so in every later step.
\<close>

definition rescale :: "fval \<Rightarrow> complex list \<Rightarrow> complex list option" where
  "rescale nrm y =
     (case nrm of
        Fin r \<Rightarrow> if r = 0 then None else Some (map (\<lambda>z. z / complex_of_real r) y)
      | PInf \<Rightarrow> Some (map (\<lambda>z. 0) y)
      | _ \<Rightarrow> None)"

definition density :: "complex list \<Rightarrow> fval list" where
  "density psi = map (\<lambda>z. Fin ((cmod z)\<^sup>2)) psi"

definition quadrature_norm_1d :: "fval list \<Rightarrow> complex list \<Rightarrow> fval" where
  "quadrature_norm_1d x psi = fsqrt (trapz (density psi) x)"

definition quadrature_norm_2d :: "fval list list \<Rightarrow> fval list list \<Rightarrow> complex list list \<Rightarrow> fval"
  where
  "quadrature_norm_2d X Y psi = fsqrt (trapz_2d (map density psi) X Y)"

fun propagate :: "nat \<Rightarrow> ('s \<Rightarrow> 's option) \<Rightarrow> 's option \<Rightarrow> 's option list" where
  "propagate 0 step psi = []"
| "propagate (Suc n) step psi =
     (let psi' = Option.bind psi step in psi' # propagate n step psi')"

definition solve_time_dependent_1d ::
  "linear_solver \<Rightarrow> fval list \<Rightarrow> complex list \<Rightarrow> fval list \<Rightarrow> fval list \<Rightarrow> fval \<Rightarrow> fval \<Rightarrow>
   string \<Rightarrow> failure + complex list option list" where
  "solve_time_dependent_1d splu x psi0 V times' mass hbar method =
     (if method \<noteq> ''crank-nicolson'' then Inl NotImplementedError
      else (case grid_spacing_1d x of
              Inl e \<Rightarrow> Inl e
            | Inr dx \<Rightarrow>
                if length times' < 2 then Inl IndexError
                else if length psi0 \<noteq> length x \<and> length psi0 \<noteq> 1 then Inl ValueError
                else (case hamiltonian_1d (length x) dx V mass hbar of
                        Inl e \<Rightarrow> Inl e
                      | Inr H \<Rightarrow>
                          if (1 + 1) * hbar = 0 then Inl ZeroDivisionError
                          else if \<not> (all_finite (toarray H) \<and> isfinite (times' ! 1 - times' ! 0)
                                      \<and> isfinite hbar)
                          then Inl Unmodelled
                          else let dt = times' ! 1 - times' ! 0;
                                   psi_0 = (if length psi0 = length x then psi0
                                            else replicate (length x) (psi0 ! 0));
                                   (A, B) = crank_nicolson_matrices
                                              (sp_map the_fin H) (the_fin dt) (the_fin hbar)
                               in (case splu A of
                                     None \<Rightarrow> Inl RuntimeError
                                   | Some lu_solve \<Rightarrow>
                                       Inr (Some psi_0 #
                                            propagate (length times' - 1)
                                              (\<lambda>psi. let y = lu_solve (sp_dot B psi)
                                                     in rescale (quadrature_norm_1d x y) y)
                                              (Some psi_0))))))"

definition solve_time_dependent_2d ::
  "linear_solver \<Rightarrow> fval list list \<Rightarrow> fval list list \<Rightarrow> complex list list \<Rightarrow> fval list list \<Rightarrow>
   fval list \<Rightarrow> fval \<Rightarrow> fval \<Rightarrow> string \<Rightarrow> failure + complex list list option list" where
  "solve_time_dependent_2d splu X Y psi0 V times' mass hbar method =
     (if method \<noteq> ''crank-nicolson'' then Inl NotImplementedError
      else (case grid_spacing_2d X Y of
              Inl e \<Rightarrow> Inl e
            | Inr (Nx, Ny, dx, dy) \<Rightarrow>
                if length times' < 2 then Inl IndexError
                else if \<not> (is_shape Nx Ny X \<and> is_shape Nx Ny Y \<and> is_shape Nx Ny psi0)
                then Inl Unmodelled
                else (case hamiltonian_2d Nx Ny dx dy V mass hbar of
                        Inl e \<Rightarrow> Inl e
                      | Inr H \<Rightarrow>
                          if (1 + 1) * hbar = 0 then Inl ZeroDivisionError
                          else if \<not> (all_finite (toarray H) \<and> isfinite (times' ! 1 - times' ! 0)
                                      \<and> isfinite hbar)
                          then Inl Unmodelled
                          else let dt = times' ! 1 - times' ! 0;
                                   (A, B) = crank_nicolson_matrices
                                              (sp_map the_fin H) (the_fin dt) (the_fin hbar)
                               in (case splu A of
                                     None \<Rightarrow> Inl RuntimeError
                                   | Some lu_solve \<Rightarrow>
                                       Inr (Some psi0 #
                                            map (map_option (reshape Nx Ny))
                                              (propagate (length times' - 1)
                                                 (\<lambda>psi_vec.
                                                    let y = lu_solve (sp_dot B psi_vec)
                                                    in rescale
                                                         (quadrature_norm_2d X Y (reshape Nx Ny y))
                                                         y)
                                                 (Some (ravel psi0))))))))"

section \<open>utils/numerics.py\<close>

subsection \<open>Expectation values of custom observables\<close>

text \<open>
  \<open>obs\<close> is the array \<open>O\<close> that the expression evaluator returns for \<open>expr\<close>; the functions
  only reduce it.  A zero denominator makes numpy return \<open>nan\<close> or \<open>inf\<close>.
\<close>

definition expectation_custom_expr_1d ::
  "real list \<Rightarrow> complex list \<Rightarrow> complex list \<Rightarrow> failure + complex" where
  "expectation_custom_expr_1d x psi obs =
     (if length x < 2 then Inl IndexError
      else let dx = x ! 1 - x ! 0;
               den = sum_list (map (\<lambda>z. (cmod z)\<^sup>2 * dx) psi)
           in if den = 0 then Inl Unmodelled
              else Inr (sum_list obs * complex_of_real dx / complex_of_real den))"

definition expectation_custom_expr_2d ::
  "real list list \<Rightarrow> real list list \<Rightarrow> complex list list \<Rightarrow> complex list list \<Rightarrow>
   failure + complex" where
  "expectation_custom_expr_2d X Y psi obs =
     (if length X < 2 \<or> length (X ! 1) < 1 \<or> length (X ! 0) < 1 then Inl IndexError
      else if length Y < 1 \<or> length (Y ! 0) < 2 then Inl IndexError
      else let dx = X ! 1 ! 0 - X ! 0 ! 0;
               dy = Y ! 0 ! 1 - Y ! 0 ! 0;
               den = sum_list (map (\<lambda>z. (cmod z)\<^sup>2 * dx * dy) (concat psi))
           in if den = 0 then Inl Unmodelled
              else Inr (sum_list (concat obs) * complex_of_real dx * complex_of_real dy
                        / complex_of_real den))"

text \<open>
  The quadrature the specification describes for the same quantity: the ratio of two
  composite trapezoidal integrals over the grid (nested over both axes in 2D).
\<close>

definition expectation_trapz_1d :: "real list \<Rightarrow> complex list \<Rightarrow> complex list \<Rightarrow> complex" where
  "expectation_trapz_1d x psi obs =
     trapz obs (map complex_of_real x)
     / trapz (map (\<lambda>z. complex_of_real ((cmod z)\<^sup>2)) psi) (map complex_of_real x)"

definition expectation_trapz_2d ::
  "real list list \<Rightarrow> real list list \<Rightarrow> complex list list \<Rightarrow> complex list list \<Rightarrow> complex" where
  "expectation_trapz_2d X Y psi obs =
     (let ys = map complex_of_real (Y ! 0);
          xs = map (\<lambda>row. complex_of_real (row ! 0)) X
      in trapz (map (\<lambda>row. trapz row ys) obs) xs
         / trapz (map (\<lambda>row. trapz (map (\<lambda>z. complex_of_real ((cmod z)\<^sup>2)) row) ys) psi) xs)"

subsection \<open>Archives\<close>








section \<open>Auxiliary notions\<close>


section \<open>Worked instances\<close>



text \<open>
  The grid of \<open>create_2d_grid(0, 2, 2, 0, 2, 2)\<close> with the constant potential \<open>-3/5\<close> and
  \<open>mass = hbar = 1\<close>.  The Hamiltonian has the eigenvalues \<open>-7/20\<close>, \<open>-1/10\<close> (twice) and
  \<open>3/20\<close>; the eigenvectors are the four sign patterns, scaled to unit length.
\<close>

definition X_four_point :: "fval list list" where
  "X_four_point = [[Fin 0, Fin 0], [Fin 2, Fin 2]]"

definition Y_four_point :: "fval list list" where
  "Y_four_point = [[Fin 0, Fin 2], [Fin 0, Fin 2]]"

definition V_four_point :: "fval list list" where
  "V_four_point = [[Fin (- (3 / 5)), Fin (- (3 / 5))], [Fin (- (3 / 5)), Fin (- (3 / 5))]]"

definition hamiltonian_four_point :: "real list list" where
  "hamiltonian_four_point =
     [[- (1 / 10), - (1 / 8), - (1 / 8), 0],
      [- (1 / 8), - (1 / 10), 0, - (1 / 8)],
      [- (1 / 8), 0, - (1 / 10), - (1 / 8)],
      [0, - (1 / 8), - (1 / 8), - (1 / 10)]]"

definition eigh_four_point :: eigensolver where
  "eigh_four_point A =
     ([- (7 / 20), - (1 / 10), - (1 / 10), 3 / 20],
      [[1 / 2, 1 / 2, 1 / 2, 1 / 2],
       [1 / 2, - (1 / 2), 1 / 2, - (1 / 2)],
       [1 / 2, 1 / 2, - (1 / 2), - (1 / 2)],
       [1 / 2, - (1 / 2), - (1 / 2), 1 / 2]])"





section \<open>Properties\<close>

lemmas fval_arith = zero_fval_def one_fval_def minus_fval_def


lemma upt_4: "[0..<4] = [0, 1, 2, 3]"
  by (simp add: upt_rec)

subsection \<open>Finite and infinite entries\<close>


lemma isfinite_Fin_plus [simp]: "isfinite (Fin t + v) = isfinite v"
  by (cases v) simp_all





lemma length_toarray [simp]: "length (toarray M) = nrows M"
  by (simp add: toarray_def)





lemma shape_laplacian_1d [simp]:
  "nrows (laplacian_1d N dx) = N" "ncols (laplacian_1d N dx) = N"
  by (simp_all add: laplacian_1d_def sp_div_def diags_tridiag_def Let_def)


lemma nrows_laplacian_2d [simp]:
  "nrows (laplacian_2d Nx Ny dx dy) = Ny * Nx" "ncols (laplacian_2d Nx Ny dx dy) = Ny * Nx"
  by (simp_all add: laplacian_2d_def sp_add_def kron_def sp_identity_def Let_def)


subsection \<open>The grid\<close>

lemma length_linspace [simp]: "length (linspace a b n) = n"
  by (simp add: linspace_def)


subsection \<open>Sums\<close>

lemma sum_list_mult_const_right:
  "sum_list (map (\<lambda>z. f z * (c::real)) xs) = sum_list (map f xs) * c"
  by (induction xs) (simp_all add: algebra_simps)

subsection \<open>Shapes\<close>


lemma length_column [simp]: "length (column n a) = length a"
  by (simp add: column_def)






lemma reshape_2: "reshape 2 Ny v = [take Ny v, take Ny (drop Ny v)]"
  by (simp add: numeral_2_eq_2)

subsection \<open>The stationary solvers\<close>









subsection \<open>The worked instances\<close>



lemma spacing_four_point:
  "grid_spacing_2d X_four_point Y_four_point = Inr (2, 2, Fin 2, Fin 2)"
  by (simp add: grid_spacing_2d_def num_columns_def X_four_point_def Y_four_point_def fval_arith)

lemma shape_four_point: "is_shape 2 2 X_four_point" "is_shape 2 2 Y_four_point"
  by (simp_all add: is_shape_def X_four_point_def Y_four_point_def)

lemma dense_four_point:
  "map_sum id toarray (hamiltonian_2d 2 2 (Fin 2) (Fin 2) V_four_point (Fin 1) (Fin 1))
     = Inr (map (map Fin) hamiltonian_four_point)"
  by (simp add: hamiltonian_2d_def V_four_point_def ravel_def fval_arith Let_def sp_add_def
      sp_scale_def laplacian_2d_def kron_def laplacian_1d_def sp_div_def diags_tridiag_def
      diags_main_def sp_identity_def toarray_def sp_val_def upt_4 hamiltonian_four_point_def)

lemma dense_four_pointD:
  assumes "hamiltonian_2d 2 2 (Fin 2) (Fin 2) V_four_point (Fin 1) (Fin 1) = Inr H"
  shows "toarray H = map (map Fin) hamiltonian_four_point" "nrows H = 4"
proof -
  show a: "toarray H = map (map Fin) hamiltonian_four_point"
    using dense_four_point assms by simp
  have "length (toarray H) = 4" unfolding a by (simp add: hamiltonian_four_point_def)
  then show "nrows H = 4" by simp
qed

lemma contract_four_point: "eigh_contract eigh_four_point hamiltonian_four_point"
  by (simp add: eigh_contract_def eigh_four_point_def hamiltonian_four_point_def is_shape_def
      mat_vec_def dot_product_def column_def upt_4)

lemma the_fin_comp_Fin [simp]: "the_fin \<circ> Fin = id"
  by (rule ext) simp

lemma the_fin_Fin [simp]: "map (map the_fin) (map (map Fin) A) = A"
  by simp

subsection \<open>Values of sparse matrices over a ring\<close>

lemma sp_val_add [simp]:
  "sp_val (sp_add A B) i j = sp_val A i j + (sp_val B i j :: 'a::monoid_add)"
  by (simp add: sp_val_def sp_add_def split: option.splits)

lemma sp_val_sub [simp]:
  "sp_val (sp_sub A B) i j = sp_val A i j - (sp_val B i j :: 'a::group_add)"
  by (simp add: sp_val_def sp_sub_def split: option.splits)

lemma sp_val_scale [simp]:
  "sp_val (sp_scale c M) i j = c * (sp_val M i j :: 'a::mult_zero)"
  by (simp add: sp_val_def sp_scale_def split: option.splits)

lemma sp_val_div [simp]:
  "sp_val (sp_div M c) i j = (sp_val M i j :: 'a::division_ring) / c"
  by (simp add: sp_val_def sp_div_def split: option.splits)



lemma shape_simps [simp]:
  "nrows (sp_add A B) = nrows A" "ncols (sp_add A B) = ncols A"
  "nrows (sp_sub A B) = nrows A" "ncols (sp_sub A B) = ncols A"
  "nrows (sp_scale c M) = nrows M" "ncols (sp_scale c M) = ncols M"
  "nrows (sp_div M d) = nrows M" "ncols (sp_div M d) = ncols M"
  "nrows (sp_map f M) = nrows M" "ncols (sp_map f M) = ncols M"
  "nrows (diags_main v) = length v" "ncols (diags_main v) = length v"
  by (simp_all add: sp_add_def sp_sub_def sp_scale_def sp_div_def sp_map_def diags_main_def)

lemma length_sp_dot [simp]: "length (sp_dot M v) = nrows M"
  by (simp add: sp_dot_def)


subsection \<open>The explicit factor of Crank-Nicolson is injective\<close>



subsection \<open>Symmetry of the Hamiltonian\<close>






subsection \<open>The two factors\<close>




subsection \<open>The trapezoidal rule on finite values\<close>





subsection \<open>Rescaling to unit norm\<close>





lemma reshape_ravel: "is_shape Nx Ny a \<Longrightarrow> reshape Nx Ny (ravel a) = a"
proof (induction Nx arbitrary: a)
  case 0
  then show ?case by (simp add: is_shape_def)
next
  case (Suc Nx)
  then obtain row rest where a: "a = row # rest" "length row = Ny" "is_shape Nx Ny rest"
    by (cases a) (auto simp add: is_shape_def)
  then show ?case using Suc.IH [OF a(3)] by (simp add: ravel_def)
qed








subsection \<open>The propagators\<close>









subsection \<open>The free two-point and four-point instances\<close>








subsection \<open>A grid without extent\<close>


section \<open>Claims\<close>

text \<open>
  C1.  The flattening of the grid-shaped arrays and the index order of the Kronecker-sum
  Laplacian have to agree.  They do not: \<open>ravel\<close> is row-major, so that flat index
  \<open>i * Ny + j\<close> is grid point \<open>(i, j)\<close>, while \<open>kron(identity(Ny), Lx) + kron(Ly, identity(Nx))\<close>
  lets the \<open>x\<close> index run fastest.  On a grid with \<open>Nx = 2\<close>, \<open>Ny = 3\<close> and unit spacings the
  Laplacian couples the grid points \<open>(0, 2)\<close> and \<open>(1, 0)\<close>, which are not neighbours, and does
  not couple the neighbours \<open>(0, 0)\<close> and \<open>(1, 0)\<close>.
\<close>

theorem laplacian_2d_row_major_mismatch:
  "sp_val (laplacian_2d 2 3 (Fin 1) (Fin 1)) (ravel_index 3 0 2) (ravel_index 3 1 0) = Fin 1
   \<and> five_point_stencil (Fin 1) (Fin 1) (0, 2) (1, 0) = Fin 0
   \<and> sp_val (laplacian_2d 2 3 (Fin 1) (Fin 1)) (ravel_index 3 0 0) (ravel_index 3 1 0) = Fin 0
   \<and> five_point_stencil (Fin 1) (Fin 1) (0, 0) (1, 0) = Fin 1"
  by (simp add: laplacian_2d_def laplacian_1d_def kron_def sp_identity_def sp_add_def sp_div_def
      diags_tridiag_def sp_val_def ravel_index_def five_point_stencil_def fval_arith Let_def)

text \<open>
  C2.  The 2D stationary solver has to return the algebraically smallest eigenvalues.  It
  asks \<open>eigsh\<close> for \<open>which='SM'\<close>, the eigenvalues of smallest magnitude.  For the
  four-point grid with the constant potential \<open>-3/5\<close> the Hamiltonian has the eigenvalue
  \<open>-7/20\<close>, and the solver called with \<open>num_eigen = 1\<close> returns \<open>-1/10\<close>.
\<close>

theorem eigsh_returns_smallest_magnitude:
  "map_sum id toarray (hamiltonian_2d 2 2 (Fin 2) (Fin 2) V_four_point (Fin 1) (Fin 1))
     = Inr (map (map Fin) hamiltonian_four_point)
   \<and> mat_vec hamiltonian_four_point [1 / 2, 1 / 2, 1 / 2, 1 / 2]
     = map (\<lambda>c. - (7 / 20) * c) [1 / 2, 1 / 2, 1 / 2, 1 / 2]
   \<and> eigh_contract eigh_four_point hamiltonian_four_point
   \<and> solve_time_independent_2d eigh_four_point X_four_point Y_four_point V_four_point
        (Fin 1) (Fin 1) 1
     = Inr ([- (1 / 10)], [[[Fin (1 / 2), Fin (- (1 / 2))], [Fin (1 / 2), Fin (- (1 / 2))]]])"
proof -
  obtain H where H: "hamiltonian_2d 2 2 (Fin 2) (Fin 2) V_four_point (Fin 1) (Fin 1) = Inr H"
    using dense_four_point by (cases "hamiltonian_2d 2 2 (Fin 2) (Fin 2) V_four_point (Fin 1) (Fin 1)") auto
  note d = dense_four_pointD [OF H]
  have e: "eigsh eigh_four_point H 1 SM
             = Inr ([- (1 / 10)], [[1 / 2], [- (1 / 2)], [1 / 2], [- (1 / 2)]])"
    unfolding eigsh_def d
    by (simp add: all_finite_def eigh_four_point_def upt_4 column_def select_eigenpairs_def
        hamiltonian_four_point_def)
  have s: "solve_time_independent_2d eigh_four_point X_four_point Y_four_point V_four_point
             (Fin 1) (Fin 1) 1
           = Inr ([- (1 / 10)], [[[Fin (1 / 2), Fin (- (1 / 2))], [Fin (1 / 2), Fin (- (1 / 2))]]])"
    unfolding solve_time_independent_2d_def spacing_four_point
    by (simp add: shape_four_point H e)
       (simp add: column_def trapz_2d_def fabs_def X_four_point_def Y_four_point_def fval_arith
          Let_def reshape_2)
  have v: "mat_vec hamiltonian_four_point [1 / 2, 1 / 2, 1 / 2, 1 / 2]
             = map (\<lambda>c. - (7 / 20) * c) [1 / 2, 1 / 2, 1 / 2, 1 / 2]"
    by (simp add: mat_vec_def hamiltonian_four_point_def)
  show ?thesis using dense_four_point v contract_four_point s by simp
qed







text \<open>
  C5.  The propagators in 1D and 2D raise \<open>NotImplementedError\<close> (the \<open>UnsupportedMethod\<close> of
  the specification) exactly when the method string is not \<open>crank-nicolson\<close>, whatever the
  other arguments are: the check comes before any other work.
\<close>

theorem unsupported_method_iff:
  "(solve_time_dependent_1d splu x psi0 V times' mass hbar method = Inl NotImplementedError
      \<longleftrightarrow> method \<noteq> ''crank-nicolson'')
   \<and> (solve_time_dependent_2d splu X Y psi2 V2 times' mass hbar method = Inl NotImplementedError
      \<longleftrightarrow> method \<noteq> ''crank-nicolson'')"
  by (auto simp add: solve_time_dependent_1d_def solve_time_dependent_2d_def grid_spacing_1d_def
      grid_spacing_2d_def hamiltonian_1d_def hamiltonian_2d_def Let_def
      split: sum.splits option.splits prod.splits if_splits)

text \<open>
  C6 (as amended).  The expectation value of a custom observable is the ratio of two plain
  sums of samples times spacing, in which every sample, boundary or interior, has the same
  weight: where the spacings and the sum of \<open>|psi|\<^sup>2\<close> are not zero it equals the sum of
  the integrand divided by the sum of \<open>|psi|\<^sup>2\<close>.  It is not the ratio of trapezoidal
  integrals.
\<close>

theorem expectation_custom_expr_riemann_ratio:
  "(2 \<le> length x \<and> x ! 1 \<noteq> x ! 0 \<and> (\<Sum>z\<leftarrow>psi. (cmod z)\<^sup>2) \<noteq> 0 \<longrightarrow>
      expectation_custom_expr_1d x psi obs =
        Inr (sum_list obs / complex_of_real (\<Sum>z\<leftarrow>psi. (cmod z)\<^sup>2)))
   \<and> (2 \<le> length X \<and> 1 \<le> length (X ! 0) \<and> 1 \<le> length (X ! 1) \<and> 1 \<le> length Y
        \<and> 2 \<le> length (Y ! 0)
        \<and> X ! 1 ! 0 \<noteq> X ! 0 ! 0 \<and> Y ! 0 ! 1 \<noteq> Y ! 0 ! 0
        \<and> (\<Sum>z\<leftarrow>concat psi2. (cmod z)\<^sup>2) \<noteq> 0 \<longrightarrow>
      expectation_custom_expr_2d X Y psi2 obs2 =
        Inr (sum_list (concat obs2) / complex_of_real (\<Sum>z\<leftarrow>concat psi2. (cmod z)\<^sup>2)))"
proof (intro conjI impI)
  assume h: "2 \<le> length x \<and> x ! 1 \<noteq> x ! 0 \<and> (\<Sum>z\<leftarrow>psi. (cmod z)\<^sup>2) \<noteq> 0"
  define dx where "dx = x ! 1 - x ! 0"
  define s where "s = (\<Sum>z\<leftarrow>psi. (cmod z)\<^sup>2)"
  have dx: "dx \<noteq> 0" using h by (simp add: dx_def)
  have den: "sum_list (map (\<lambda>z. (cmod z)\<^sup>2 * dx) psi) = s * dx"
    unfolding s_def by (rule sum_list_mult_const_right)
  have s: "s \<noteq> 0" using h by (simp add: s_def)
  show "expectation_custom_expr_1d x psi obs =
        Inr (sum_list obs / complex_of_real (\<Sum>z\<leftarrow>psi. (cmod z)\<^sup>2))"
    using h dx s unfolding expectation_custom_expr_1d_def Let_def dx_def[symmetric] den s_def[symmetric]
    by (simp add: field_simps)
next
  assume h: "2 \<le> length X \<and> 1 \<le> length (X ! 0) \<and> 1 \<le> length (X ! 1) \<and> 1 \<le> length Y
        \<and> 2 \<le> length (Y ! 0)
        \<and> X ! 1 ! 0 \<noteq> X ! 0 ! 0 \<and> Y ! 0 ! 1 \<noteq> Y ! 0 ! 0
        \<and> (\<Sum>z\<leftarrow>concat psi2. (cmod z)\<^sup>2) \<noteq> 0"
  define dx where "dx = X ! 1 ! 0 - X ! 0 ! 0"
  define dy where "dy = Y ! 0 ! 1 - Y ! 0 ! 0"
  define s where "s = (\<Sum>z\<leftarrow>concat psi2. (cmod z)\<^sup>2)"
  have dx: "dx \<noteq> 0" and dy: "dy \<noteq> 0" using h by (simp_all add: dx_def dy_def)
  have "sum_list (map (\<lambda>z. (cmod z)\<^sup>2 * dx * dy) (concat psi2))
        = sum_list (map (\<lambda>z. (cmod z)\<^sup>2 * (dx * dy)) (concat psi2))"
    by (simp add: mult.assoc)
  also have "\<dots> = s * (dx * dy)"
    unfolding s_def by (rule sum_list_mult_const_right)
  finally have den: "sum_list (map (\<lambda>z. (cmod z)\<^sup>2 * dx * dy) (concat psi2)) = s * (dx * dy)" .
  have s: "s \<noteq> 0" using h by (simp add: s_def)
  show "expectation_custom_expr_2d X Y psi2 obs2 =
        Inr (sum_list (concat obs2) / complex_of_real (\<Sum>z\<leftarrow>concat psi2. (cmod z)\<^sup>2))"
    using h dx dy s
    unfolding expectation_custom_expr_2d_def Let_def dx_def[symmetric] dy_def[symmetric] den s_def[symmetric]
    by (auto simp add: field_simps)
qed

theorem expectation_custom_expr_riemann_ratio_witness:
  "expectation_custom_expr_1d [0, 1, 2] [1, 1, 1] [1, 0, 0] = Inr (1 / 3)
   \<and> expectation_custom_expr_2d [[0, 0], [1, 1]] [[0, 1], [0, 1]] [[1, 1], [1, 1]] [[1, 0], [0, 0]]
       = Inr (1 / 4)"
  using expectation_custom_expr_riemann_ratio
    [of "[0, 1, 2]" "[1, 1, 1]" "[1, 0, 0]" "[[0, 0], [1, 1]]" "[[0, 1], [0, 1]]"
        "[[1, 1], [1, 1]]" "[[1, 0], [0, 0]]"]
  by simp

theorem expectation_not_trapezoidal:
  "expectation_custom_expr_1d [0, 1, 2] [1, 1, 1] [1, 0, 0]
     \<noteq> Inr (expectation_trapz_1d [0, 1, 2] [1, 1, 1] [1, 0, 0])"
  by (simp add: expectation_custom_expr_1d_def expectation_trapz_1d_def)









end
